theory Spec2Isabelle
  imports Complex_Main "HOL-Library.Word"
begin

section \<open>The persistent store\<close>

text \<open>
  The store of \<^verbatim>\<open>database_async.py\<close> is an SQLite file. (Its synchronous twin
  \<^verbatim>\<open>database.py\<close> has \<^verbatim>\<open>await\<close> inside plain functions and is not a Python module that
  loads; the model follows the asynchronous file.) A table is modelled as the list of its
  rows in insertion order, a row as a record with one field per column, \<^verbatim>\<open>NULL\<close> as
  \<open>None\<close>. \<^verbatim>\<open>CURRENT_TIMESTAMP\<close> is the parameter \<open>now\<close> of the operations that use it.
  The statements executed and committed on one connection form one unit of work, which
  either becomes durable or raises \<^verbatim>\<open>OperationalError\<close> (the store is busy past its timeout)
  and changes nothing. Whether a unit of work hits that failure is an input of the model.
\<close>

type_synonym bytes = "8 word list"

type_synonym timestamp = nat

text \<open>The failure of a unit of work: \<open>None\<close> when it commits, \<open>Some msg\<close> when it raises
  \<^verbatim>\<open>OperationalError(msg)\<close>.\<close>

type_synonym fault = "string option"

datatype exn = OperationalError string | IntegrityError string | TypeError

datatype 'a outcome = Returned 'a | Raised exn

fun is_returned :: "'a outcome \<Rightarrow> bool" where
  "is_returned (Returned _) = True"
| "is_returned (Raised _) = False"

record downloaded_album_row =
  da_id :: int
  da_album_id :: string
  da_album_name :: string
  da_photo_count :: int
  da_total_size :: int
  da_chunk_count :: int
  da_created_at :: timestamp

record album_chunk_row =
  ac_album_id :: int
  ac_chunk_index :: int
  ac_chunk_data :: bytes
  ac_chunk_size :: int
  ac_photo_count :: int
  ac_created_at :: timestamp

record task_row =
  t_id :: string
  t_status :: string
  t_progress :: int
  t_total :: int
  t_current_step :: "string option"
  t_created_at :: timestamp
  t_completed_at :: "timestamp option"

record download_task_row = task_row +
  dt_album_id :: string
  dt_album_name :: string

record resize_task_row = task_row +
  rt_downloaded_album_id :: int
  rt_profile_id :: int
  rt_zip_data :: "bytes option"
  rt_zip_size :: int
  rt_processed_count :: int

record database =
  downloaded_albums :: "downloaded_album_row list"
  downloaded_albums_seq :: int
  album_chunks :: "album_chunk_row list"
  download_tasks :: "download_task_row list"
  resize_tasks :: "resize_task_row list"

text \<open>What a call leaves behind: the store, the lines it printed, and how it ended.\<close>

record 'a run =
  db_after :: database
  printed :: "string list"
  outcome :: "'a outcome"

subsection \<open>Entering a connection\<close>

text \<open>
  Every operation opens its connection with \<^verbatim>\<open>async with\<close>. \<^verbatim>\<open>aiosqlite.connect(path)\<close> gives
  a connection object, which is an asynchronous context manager: the block runs.
  \<^verbatim>\<open>_get_connection\<close> is declared \<^verbatim>\<open>async def\<close>, and the three operations that use it write
  \<^verbatim>\<open>async with self._get_connection() as conn\<close> with no \<^verbatim>\<open>await\<close>: the call gives a
  coroutine object, which is no context manager, and \<^verbatim>\<open>async with\<close> raises \<^verbatim>\<open>TypeError\<close>
  (the coroutine object does not support the asynchronous context manager protocol) before
  the block is entered.
\<close>

datatype context_expression = Connection_object | Coroutine_object

definition aiosqlite_connect :: context_expression where
  "aiosqlite_connect = Connection_object"

definition get_connection :: context_expression where
  "get_connection = Coroutine_object"

fun async_with :: "context_expression \<Rightarrow> unit outcome" where
  "async_with Connection_object = Returned ()"
| "async_with Coroutine_object = Raised TypeError"

subsection \<open>Saving a downloaded album in chunks\<close>

text \<open>
  \<^verbatim>\<open>save_downloaded_album_chunked\<close> as written: inside \<^verbatim>\<open>try\<close>, it enters
  \<^verbatim>\<open>self._get_connection()\<close>; in the block the summary row is inserted and committed, then
  every chunk is inserted and committed on a connection of its own, entered the same way, in
  the order of \<^verbatim>\<open>enumerate(chunks)\<close>. \<open>busy k\<close> is the fault of the \<open>k\<close>-th unit of work of
  the call (0 the summary row, \<open>i + 1\<close> chunk \<open>i\<close>). The handler catches
  \<^verbatim>\<open>OperationalError\<close> only: it prints and returns \<open>-1\<close>; any other exception leaves the
  function. The id of the new row is that of an \<^verbatim>\<open>AUTOINCREMENT\<close> key: one more than the
  largest id ever given out. Python's \<^verbatim>\<open>//\<close> and \<^verbatim>\<open>%\<close> on integers round towards minus
  infinity, as \<open>div\<close> and \<open>mod\<close> on \<open>int\<close> do.
\<close>

definition chunk_photo_count :: "int \<Rightarrow> nat \<Rightarrow> nat \<Rightarrow> int" where
  "chunk_photo_count photo_count n i =
     photo_count div int n + (if int i < photo_count mod int n then 1 else 0)"

definition chunk_row :: "timestamp \<Rightarrow> int \<Rightarrow> int \<Rightarrow> nat \<Rightarrow> nat \<Rightarrow> bytes \<Rightarrow> album_chunk_row" where
  "chunk_row now album_db_id photo_count n i chunk_data =
     \<lparr>ac_album_id = album_db_id, ac_chunk_index = int i, ac_chunk_data = chunk_data,
      ac_chunk_size = int (length chunk_data),
      ac_photo_count = chunk_photo_count photo_count n i,
      ac_created_at = now\<rparr>"

definition insert_chunk :: "album_chunk_row \<Rightarrow> database \<Rightarrow> database" where
  "insert_chunk row db = db\<lparr>album_chunks := album_chunks db @ [row]\<rparr>"

fun save_chunks :: "timestamp \<Rightarrow> (nat \<Rightarrow> fault) \<Rightarrow> int \<Rightarrow> int \<Rightarrow> nat \<Rightarrow> nat \<Rightarrow> bytes list \<Rightarrow>
    database \<Rightarrow> database \<times> unit outcome" where
  "save_chunks now busy album_db_id photo_count n i [] db = (db, Returned ())"
| "save_chunks now busy album_db_id photo_count n i (chunk_data # rest) db =
     (case async_with get_connection of
        Raised e \<Rightarrow> (db, Raised e)
      | Returned chunk_conn \<Rightarrow>
          (case busy (Suc i) of
             Some msg \<Rightarrow> (db, Raised (OperationalError msg))
           | None \<Rightarrow> save_chunks now busy album_db_id photo_count n (Suc i) rest
                      (insert_chunk (chunk_row now album_db_id photo_count n i chunk_data) db)))"

definition summary_row :: "timestamp \<Rightarrow> int \<Rightarrow> string \<Rightarrow> string \<Rightarrow> int \<Rightarrow> bytes list \<Rightarrow>
    downloaded_album_row" where
  "summary_row now album_db_id album_id album_name photo_count chunks =
     \<lparr>da_id = album_db_id, da_album_id = album_id,
      da_album_name = album_name, da_photo_count = photo_count,
      da_total_size = sum_list (map (\<lambda>chunk. int (length chunk)) chunks),
      da_chunk_count = int (length chunks), da_created_at = now\<rparr>"

definition insert_album :: "timestamp \<Rightarrow> string \<Rightarrow> string \<Rightarrow> int \<Rightarrow> bytes list \<Rightarrow> database \<Rightarrow> database" where
  "insert_album now album_id album_name photo_count chunks db =
     db\<lparr>downloaded_albums := downloaded_albums db @
        [summary_row now (downloaded_albums_seq db + 1) album_id album_name photo_count chunks],
        downloaded_albums_seq := downloaded_albums_seq db + 1\<rparr>"

definition save_error :: "string \<Rightarrow> string" where
  "save_error msg = ''Database error in save_downloaded_album_chunked: '' @ msg"

text \<open>The \<^verbatim>\<open>except aiosqlite.OperationalError\<close> clause of the function, on the store as the
  exception left it.\<close>

fun save_except :: "database \<Rightarrow> exn \<Rightarrow> int run" where
  "save_except db (OperationalError msg) =
     \<lparr>db_after = db, printed = [save_error msg], outcome = Returned (- 1)\<rparr>"
| "save_except db e = \<lparr>db_after = db, printed = [], outcome = Raised e\<rparr>"

definition save_downloaded_album_chunked ::
    "timestamp \<Rightarrow> (nat \<Rightarrow> fault) \<Rightarrow> string \<Rightarrow> string \<Rightarrow> int \<Rightarrow> bytes list \<Rightarrow> database \<Rightarrow> int run" where
  "save_downloaded_album_chunked now busy album_id album_name photo_count chunks db =
     (case async_with get_connection of
        Raised e \<Rightarrow> save_except db e
      | Returned conn \<Rightarrow>
          (case busy 0 of
             Some msg \<Rightarrow> save_except db (OperationalError msg)
           | None \<Rightarrow>
              (let db1 = insert_album now album_id album_name photo_count chunks db;
                   album_db_id = downloaded_albums_seq db1
               in case save_chunks now busy album_db_id photo_count (length chunks) 0 chunks db1 of
                    (db2, Returned u) \<Rightarrow>
                      \<lparr>db_after = db2, printed = [], outcome = Returned album_db_id\<rparr>
                  | (db2, Raised e) \<Rightarrow> save_except db2 e)))"

text \<open>The chunk rows a call has added to the store.\<close>

definition new_chunk_rows :: "database \<Rightarrow> database \<Rightarrow> album_chunk_row list" where
  "new_chunk_rows db db' = drop (length (album_chunks db)) (album_chunks db')"


subsection \<open>Task records\<close>

text \<open>
  \<^verbatim>\<open>create_download_task\<close> and \<^verbatim>\<open>create_resize_task\<close> insert a row in status
  \<^verbatim>\<open>pending\<close>; the columns they do not name take the defaults of the schema. The id is the
  primary key of its table: inserting an id that is there already raises
  \<^verbatim>\<open>IntegrityError\<close>, which neither function handles.
\<close>

definition create_download_task :: "timestamp \<Rightarrow> string \<Rightarrow> string \<Rightarrow> string \<Rightarrow> int \<Rightarrow> database \<Rightarrow> unit run" where
  "create_download_task now task_id album_id album_name total_count db =
     (if task_id \<in> set (map t_id (download_tasks db))
      then \<lparr>db_after = db, printed = [], outcome = Raised (IntegrityError ''UNIQUE constraint failed: download_tasks.id'')\<rparr>
      else \<lparr>db_after = db\<lparr>download_tasks := download_tasks db @
               [\<lparr>t_id = task_id, t_status = ''pending'', t_progress = 0, t_total = total_count,
                 t_current_step = Some ''Initializing...'', t_created_at = now,
                 t_completed_at = None, dt_album_id = album_id, dt_album_name = album_name\<rparr>]\<rparr>,
            printed = [], outcome = Returned ()\<rparr>)"

definition create_resize_task :: "timestamp \<Rightarrow> string \<Rightarrow> int \<Rightarrow> int \<Rightarrow> int \<Rightarrow> database \<Rightarrow> unit run" where
  "create_resize_task now task_id downloaded_album_id profile_id total_count db =
     (if task_id \<in> set (map t_id (resize_tasks db))
      then \<lparr>db_after = db, printed = [], outcome = Raised (IntegrityError ''UNIQUE constraint failed: resize_tasks.id'')\<rparr>
      else \<lparr>db_after = db\<lparr>resize_tasks := resize_tasks db @
               [\<lparr>t_id = task_id, t_status = ''pending'', t_progress = 0, t_total = total_count,
                 t_current_step = Some ''Initializing...'', t_created_at = now,
                 t_completed_at = None, rt_downloaded_album_id = downloaded_album_id,
                 rt_profile_id = profile_id, rt_zip_data = None, rt_zip_size = 0,
                 rt_processed_count = 0\<rparr>]\<rparr>,
            printed = [], outcome = Returned ()\<rparr>)"

text \<open>
  The update functions collect the assignments of the \<^verbatim>\<open>SET\<close> clause in the list
  \<^verbatim>\<open>updates\<close>, one test per argument: \<^verbatim>\<open>if status:\<close>, \<^verbatim>\<open>if current_step:\<close> and
  \<^verbatim>\<open>if zip_data:\<close> are Python truth tests (neither \<^verbatim>\<open>None\<close> nor empty), the others are
  \<^verbatim>\<open>is not None\<close>. An argument left at its default \<^verbatim>\<open>None\<close> is \<open>None\<close> here.
  \<^verbatim>\<open>update_download_task\<close> and \<^verbatim>\<open>update_download_task_total\<close> enter
  \<^verbatim>\<open>self._get_connection()\<close> inside \<^verbatim>\<open>try\<close>, with a handler for \<^verbatim>\<open>OperationalError\<close> that
  prints and goes on; \<^verbatim>\<open>update_resize_task\<close> enters \<^verbatim>\<open>aiosqlite.connect(self.db_path)\<close>
  and has no \<^verbatim>\<open>try\<close>.
\<close>

datatype assignment =
    Set_status string
  | Stamp_completed_at
  | Set_progress int
  | Set_current_step string
  | Set_zip_data bytes
  | Set_zip_size int
  | Set_processed_count int
  | Set_total int

definition status_updates :: "string option \<Rightarrow> assignment list" where
  "status_updates status =
     (case status of
        None \<Rightarrow> []
      | Some s \<Rightarrow> if s = [] then []
                  else Set_status s # (if s = ''completed'' then [Stamp_completed_at] else []))"

definition progress_updates :: "int option \<Rightarrow> assignment list" where
  "progress_updates progress = (case progress of None \<Rightarrow> [] | Some p \<Rightarrow> [Set_progress p])"

definition current_step_updates :: "string option \<Rightarrow> assignment list" where
  "current_step_updates current_step =
     (case current_step of None \<Rightarrow> [] | Some c \<Rightarrow> if c = [] then [] else [Set_current_step c])"

definition zip_data_updates :: "bytes option \<Rightarrow> assignment list" where
  "zip_data_updates zip_data =
     (case zip_data of None \<Rightarrow> [] | Some z \<Rightarrow> if z = [] then [] else [Set_zip_data z])"

definition zip_size_updates :: "int option \<Rightarrow> assignment list" where
  "zip_size_updates zip_size = (case zip_size of None \<Rightarrow> [] | Some z \<Rightarrow> [Set_zip_size z])"

definition processed_count_updates :: "int option \<Rightarrow> assignment list" where
  "processed_count_updates processed_count =
     (case processed_count of None \<Rightarrow> [] | Some c \<Rightarrow> [Set_processed_count c])"

definition total_updates :: "int option \<Rightarrow> assignment list" where
  "total_updates total_count = (case total_count of None \<Rightarrow> [] | Some t \<Rightarrow> [Set_total t])"

text \<open>One assignment of a \<^verbatim>\<open>SET\<close> clause, on a row of either task table. The download
  table has none of the last columns and its function never names them.\<close>

fun assign_task :: "timestamp \<Rightarrow> assignment \<Rightarrow> 'a task_row_scheme \<Rightarrow> 'a task_row_scheme" where
  "assign_task now (Set_status s) row = row\<lparr>t_status := s\<rparr>"
| "assign_task now Stamp_completed_at row = row\<lparr>t_completed_at := Some now\<rparr>"
| "assign_task now (Set_progress p) row = row\<lparr>t_progress := p\<rparr>"
| "assign_task now (Set_current_step c) row = row\<lparr>t_current_step := Some c\<rparr>"
| "assign_task now (Set_total t) row = row\<lparr>t_total := t\<rparr>"
| "assign_task now _ row = row"

fun assign_resize_task :: "timestamp \<Rightarrow> assignment \<Rightarrow> resize_task_row \<Rightarrow> resize_task_row" where
  "assign_resize_task now (Set_zip_data z) row = row\<lparr>rt_zip_data := Some z\<rparr>"
| "assign_resize_task now (Set_zip_size z) row = row\<lparr>rt_zip_size := z\<rparr>"
| "assign_resize_task now (Set_processed_count c) row = row\<lparr>rt_processed_count := c\<rparr>"
| "assign_resize_task now a row = assign_task now a row"

text \<open>\<^verbatim>\<open>UPDATE table SET updates WHERE id = task_id\<close>: every row with that id is rewritten,
  a table without such a row is left as it is.\<close>

definition sql_update :: "(assignment \<Rightarrow> 'r \<Rightarrow> 'r) \<Rightarrow> ('r \<Rightarrow> string) \<Rightarrow> assignment list \<Rightarrow> string \<Rightarrow>
    'r list \<Rightarrow> 'r list" where
  "sql_update assign key updates task_id rows =
     map (\<lambda>row. if key row = task_id then fold assign updates row else row) rows"

text \<open>The handler of the two download updates, \<open>name\<close> the function's name in the printed
  line.\<close>

fun update_except :: "string \<Rightarrow> database \<Rightarrow> exn \<Rightarrow> unit run" where
  "update_except name db (OperationalError msg) =
     \<lparr>db_after = db, printed = [''Database error in '' @ name @ '': '' @ msg],
      outcome = Returned ()\<rparr>"
| "update_except name db e = \<lparr>db_after = db, printed = [], outcome = Raised e\<rparr>"

definition update_download_task :: "timestamp \<Rightarrow> fault \<Rightarrow> string \<Rightarrow> string option \<Rightarrow> int option \<Rightarrow>
    string option \<Rightarrow> database \<Rightarrow> unit run" where
  "update_download_task now busy task_id status progress current_step db =
     (let updates = status_updates status @ progress_updates progress @
                    current_step_updates current_step
      in if updates = [] then \<lparr>db_after = db, printed = [], outcome = Returned ()\<rparr>
         else case async_with get_connection of
                Raised e \<Rightarrow> update_except ''update_download_task'' db e
              | Returned conn \<Rightarrow>
                  (case busy of
                     None \<Rightarrow>
                       \<lparr>db_after = db\<lparr>download_tasks :=
                           sql_update (assign_task now) t_id updates task_id (download_tasks db)\<rparr>,
                        printed = [], outcome = Returned ()\<rparr>
                   | Some msg \<Rightarrow>
                       update_except ''update_download_task'' db (OperationalError msg)))"

definition update_download_task_total :: "fault \<Rightarrow> string \<Rightarrow> int \<Rightarrow> database \<Rightarrow> unit run" where
  "update_download_task_total busy task_id total_count db =
     (case async_with get_connection of
        Raised e \<Rightarrow> update_except ''update_download_task_total'' db e
      | Returned conn \<Rightarrow>
          (case busy of
             None \<Rightarrow>
               \<lparr>db_after = db\<lparr>download_tasks :=
                   sql_update (assign_task 0) t_id [Set_total total_count] task_id (download_tasks db)\<rparr>,
                printed = [], outcome = Returned ()\<rparr>
           | Some msg \<Rightarrow>
               update_except ''update_download_task_total'' db (OperationalError msg)))"

text \<open>\<^verbatim>\<open>update_resize_task\<close>: its connection is entered (\<open>async_with aiosqlite_connect\<close> is
  \<open>Returned ()\<close>), and no handler stands around its unit of work.\<close>

definition update_resize_task :: "timestamp \<Rightarrow> fault \<Rightarrow> string \<Rightarrow> string option \<Rightarrow> int option \<Rightarrow>
    string option \<Rightarrow> bytes option \<Rightarrow> int option \<Rightarrow> int option \<Rightarrow> int option \<Rightarrow> database \<Rightarrow> unit run" where
  "update_resize_task now busy task_id status progress current_step zip_data zip_size
       processed_count total_count db =
     (let updates = status_updates status @ progress_updates progress @
                    current_step_updates current_step @ zip_data_updates zip_data @
                    zip_size_updates zip_size @ processed_count_updates processed_count @
                    total_updates total_count
      in if updates = [] then \<lparr>db_after = db, printed = [], outcome = Returned ()\<rparr>
         else case busy of
                None \<Rightarrow>
                  \<lparr>db_after = db\<lparr>resize_tasks :=
                      sql_update (assign_resize_task now) t_id updates task_id (resize_tasks db)\<rparr>,
                   printed = [], outcome = Returned ()\<rparr>
              | Some msg \<Rightarrow>
                  \<lparr>db_after = db, printed = [], outcome = Raised (OperationalError msg)\<rparr>)"

text \<open>The stored row of a resize task, which a reader of the table selects by its id.\<close>

definition resize_task :: "database \<Rightarrow> string \<Rightarrow> resize_task_row option" where
  "resize_task db task_id = find (\<lambda>row. t_id row = task_id) (resize_tasks db)"

text \<open>
  \<^verbatim>\<open>get_resize_task_zip\<close>: \<^verbatim>\<open>fetchone\<close> gives the first row of the given id in status
  \<^verbatim>\<open>completed\<close>, a one-column tuple, or \<^verbatim>\<open>None\<close>; a tuple is true, so the function returns
  its column, which is \<^verbatim>\<open>None\<close> when the column is \<^verbatim>\<open>NULL\<close>.
\<close>

definition get_resize_task_zip :: "string \<Rightarrow> database \<Rightarrow> bytes option run" where
  "get_resize_task_zip task_id db =
     (let result = find (\<lambda>row. t_id row = task_id \<and> t_status row = ''completed'') (resize_tasks db)
      in \<lparr>db_after = db, printed = [],
          outcome = Returned (case result of None \<Rightarrow> None | Some row \<Rightarrow> rt_zip_data row)\<rparr>)"


subsection \<open>The asset count of a gallery album\<close>

text \<open>
  \<^verbatim>\<open>sync_immich_albums\<close> receives the albums as decoded JSON objects. A JSON value is a
  \<open>pyval\<close>, an object the list of its members; \<^verbatim>\<open>album.get(key)\<close> is \<^verbatim>\<open>None\<close> for a
  missing key. The count it stores is the value of
  \<^verbatim>\<open>(album.get('assetCount') or album.get('assetCountTotal') or album.get('assets', [])
      if isinstance(album.get('assets'), list) else 0 or len(album.get('assets', []))
      if isinstance(album.get('assets'), list) else 0)\<close>.
  A conditional expression binds weaker than \<^verbatim>\<open>or\<close> and nests to the right, so this is
  \<^verbatim>\<open>(A or B or C) if c else ((0 or len(C)) if c else 0)\<close>. \<^verbatim>\<open>len\<close> of a value without a
  length raises \<^verbatim>\<open>TypeError\<close>, the \<open>None\<close> of \<open>py_len\<close>.
\<close>

datatype pyval =
    PNone
  | PBool bool
  | PInt int
  | PStr string
  | PList "pyval list"
  | PDict "(string \<times> pyval) list"

type_synonym album = "(string \<times> pyval) list"

definition get :: "album \<Rightarrow> string \<Rightarrow> pyval" where
  "get album key = (case map_of album key of None \<Rightarrow> PNone | Some v \<Rightarrow> v)"

definition get_default :: "album \<Rightarrow> string \<Rightarrow> pyval \<Rightarrow> pyval" where
  "get_default album key dflt = (case map_of album key of None \<Rightarrow> dflt | Some v \<Rightarrow> v)"

fun truthy :: "pyval \<Rightarrow> bool" where
  "truthy PNone = False"
| "truthy (PBool b) = b"
| "truthy (PInt n) = (n \<noteq> 0)"
| "truthy (PStr s) = (s \<noteq> [])"
| "truthy (PList xs) = (xs \<noteq> [])"
| "truthy (PDict kvs) = (kvs \<noteq> [])"

definition py_or :: "pyval \<Rightarrow> pyval \<Rightarrow> pyval" where
  "py_or a b = (if truthy a then a else b)"

fun isinstance_list :: "pyval \<Rightarrow> bool" where
  "isinstance_list (PList xs) = True"
| "isinstance_list _ = False"

fun py_len :: "pyval \<Rightarrow> pyval option" where
  "py_len (PStr s) = Some (PInt (int (length s)))"
| "py_len (PList xs) = Some (PInt (int (length xs)))"
| "py_len (PDict kvs) = Some (PInt (int (length kvs)))"
| "py_len _ = None"

definition asset_count :: "album \<Rightarrow> pyval option" where
  "asset_count album =
     (if isinstance_list (get album ''assets'')
      then Some (py_or (py_or (get album ''assetCount'') (get album ''assetCountTotal''))
                   (get_default album ''assets'' (PList [])))
      else if isinstance_list (get album ''assets'')
           then map_option (py_or (PInt 0)) (py_len (get_default album ''assets'' (PList [])))
           else Some (PInt 0))"

text \<open>
  The precedence the specification proposes in place of that expression, in its words: the
  exact count field, else the count of the embedded asset list, else zero.
\<close>

definition asset_count_spec_precedence :: "album \<Rightarrow> int" where
  "asset_count_spec_precedence album =
     (case map_of album ''assetCount'' of
        Some (PInt n) \<Rightarrow> n
      | _ \<Rightarrow> (case map_of album ''assets'' of
                Some (PList xs) \<Rightarrow> int (length xs)
              | _ \<Rightarrow> 0))"

section \<open>The resize engine\<close>

subsection \<open>Double precision\<close>

text \<open>
  Python's \<^verbatim>\<open>float\<close> is the IEEE 754 binary64 format. Its finite values are rational numbers,
  so the model computes on \<open>rat\<close> and rounds after each operation, to the nearest value with a
  53-bit significand, ties to the even one, with the subnormal spacing \<open>2 ^ -1074\<close> below
  \<open>2 ^ -1022\<close>. \<open>fl x\<close> is \<open>None\<close> when the rounded value does not fit the format
  (\<open>2 ^ 1024\<close> or more). \<open>binade x\<close> is the exponent \<open>e\<close> with \<open>2 ^ e \<le> x < 2 ^ (e + 1)\<close>.
\<close>

fun ilog2 :: "nat \<Rightarrow> nat" where
  "ilog2 n = (if n < 2 then 0 else Suc (ilog2 (n div 2)))"

declare ilog2.simps [simp del]

definition pow2 :: "int \<Rightarrow> rat" where
  "pow2 k = (if 0 \<le> k then 2 ^ nat k else 1 / 2 ^ nat (- k))"

definition binade :: "rat \<Rightarrow> int" where
  "binade x = (if 1 \<le> x then int (ilog2 (nat \<lfloor>x\<rfloor>))
               else - int (Suc (ilog2 (nat \<lceil>1 / x\<rceil> - 1))))"

definition round_half_even :: "rat \<Rightarrow> int" where
  "round_half_even x =
     (let f = \<lfloor>x\<rfloor>; d = x - of_int f
      in if d < 1 / 2 then f else if 1 / 2 < d then f + 1 else if even f then f else f + 1)"

definition fl :: "rat \<Rightarrow> rat option" where
  "fl x =
     (if x = 0 then Some 0
      else let e = max (binade \<bar>x\<bar>) (- 1022);
               ulp = pow2 (e - 52);
               y = of_int (round_half_even (\<bar>x\<bar> / ulp)) * ulp
           in if pow2 1024 \<le> y then None else Some (sgn x * y))"

text \<open>
  The operations of \<^verbatim>\<open>_resize_image_sync\<close> on numbers. \<^verbatim>\<open>a / b\<close> on two integers is the
  correctly rounded quotient; it raises \<^verbatim>\<open>ZeroDivisionError\<close> for \<open>b = 0\<close> and
  \<^verbatim>\<open>OverflowError\<close> when the quotient is too large. An integer that meets a float is
  converted first (\<^verbatim>\<open>OverflowError\<close> when too large); the float operation then gives
  infinity on overflow, on which \<^verbatim>\<open>int\<close> raises \<^verbatim>\<open>OverflowError\<close>. \<^verbatim>\<open>int\<close> of a finite float
  truncates towards zero.
\<close>

datatype img_exn = ZeroDivisionError | OverflowError | UnidentifiedImageError | ValueError

definition int_truediv :: "int \<Rightarrow> int \<Rightarrow> img_exn + rat" where
  "int_truediv a b =
     (if b = 0 then Inl ZeroDivisionError
      else (case fl (of_int a / of_int b) of None \<Rightarrow> Inl OverflowError | Some q \<Rightarrow> Inr q))"

definition float_of_int :: "int \<Rightarrow> img_exn + rat" where
  "float_of_int n = (case fl (of_int n) of None \<Rightarrow> Inl OverflowError | Some x \<Rightarrow> Inr x)"

definition py_int :: "rat \<Rightarrow> int" where
  "py_int x = (if 0 \<le> x then \<lfloor>x\<rfloor> else \<lceil>x\<rceil>)"

text \<open>\<^verbatim>\<open>int(n / x)\<close> and \<^verbatim>\<open>int(n * x)\<close> for an integer \<open>n\<close> and a float \<open>x\<close>.\<close>

definition int_of_quotient :: "int \<Rightarrow> rat \<Rightarrow> img_exn + int" where
  "int_of_quotient n x =
     (case float_of_int n of
        Inl e \<Rightarrow> Inl e
      | Inr nf \<Rightarrow>
          (if x = 0 then Inl ZeroDivisionError
           else (case fl (nf / x) of None \<Rightarrow> Inl OverflowError | Some q \<Rightarrow> Inr (py_int q))))"

definition int_of_product :: "int \<Rightarrow> rat \<Rightarrow> img_exn + int" where
  "int_of_product n x =
     (case float_of_int n of
        Inl e \<Rightarrow> Inl e
      | Inr nf \<Rightarrow> (case fl (nf * x) of None \<Rightarrow> Inl OverflowError | Some q \<Rightarrow> Inr (py_int q)))"

subsection \<open>Letterboxing one image\<close>

text \<open>The size of the scaled image, lines 52 to 62 of \<^verbatim>\<open>processor.py\<close>.\<close>

definition letterbox_size :: "int \<Rightarrow> int \<Rightarrow> int \<Rightarrow> int \<Rightarrow> img_exn + (int \<times> int)" where
  "letterbox_size original_width original_height target_width target_height =
     (case int_truediv original_width original_height of
        Inl e \<Rightarrow> Inl e
      | Inr original_aspect \<Rightarrow>
          (case int_truediv target_width target_height of
             Inl e \<Rightarrow> Inl e
           | Inr target_aspect \<Rightarrow>
               if target_aspect < original_aspect
               then (case int_of_quotient target_width original_aspect of
                       Inl e \<Rightarrow> Inl e
                     | Inr new_height \<Rightarrow> Inr (target_width, new_height))
               else (case int_of_product target_height original_aspect of
                       Inl e \<Rightarrow> Inl e
                     | Inr new_width \<Rightarrow> Inr (new_width, target_height))))"

text \<open>
  The size the specification states, in its words: the quotients are exact and \<open>round\<close>
  rounds to the nearest integer (ties to even, as Python's \<^verbatim>\<open>round\<close> does).
\<close>

definition letterbox_size_spec :: "int \<Rightarrow> int \<Rightarrow> int \<Rightarrow> int \<Rightarrow> int \<times> int" where
  "letterbox_size_spec w h tw th =
     (let original_aspect = (of_int w :: rat) / of_int h;
          target_aspect = (of_int tw :: rat) / of_int th
      in if target_aspect < original_aspect
         then (tw, round_half_even (of_int tw / original_aspect))
         else (round_half_even (of_int th * original_aspect), th))"

text \<open>The relative error of one rounding, \<open>2 ^ -53\<close>.\<close>

definition unit_roundoff :: rat where
  "unit_roundoff = 1 / 2 ^ 53"

subsection \<open>Profiles, output files and the resize loop\<close>

text \<open>
  A profile is the dictionary \<^verbatim>\<open>_resize_image_sync\<close> reads its five keys from. The calls into
  the file system and the imaging library are recorded in the order they return, and for
  every file written the model keeps what was composed: the size and colour of the canvas,
  the size of the scaled image and where it was pasted. Two calls refuse sizes:
  \<^verbatim>\<open>img.resize(size)\<close> returns a copy when \<open>size\<close> is the image's own, and otherwise raises
  \<^verbatim>\<open>ValueError\<close> when a side of \<open>size\<close> is below 1; \<^verbatim>\<open>Image.new\<close> raises \<^verbatim>\<open>ValueError\<close> for a
  negative side. The other calls are taken to succeed. \<^verbatim>\<open>os.path\<close> is the POSIX one.
\<close>

record profile =
  p_name :: string
  p_width :: int
  p_height :: int
  p_include_horizontal :: bool
  p_include_vertical :: bool

datatype call =
    Makedirs string
  | Resize int int
  | New_image int int "nat \<times> nat \<times> nat"
  | Paste int int
  | Save string

record letterboxed =
  canvas_size :: "int \<times> int"
  canvas_fill :: "nat \<times> nat \<times> nat"
  inner_size :: "int \<times> int"
  pasted_at :: "int \<times> int"

record world =
  files :: "string \<rightharpoonup> letterboxed"
  calls :: "call list"

definition basename :: "string \<Rightarrow> string" where
  "basename path = rev (takeWhile (\<lambda>c. c \<noteq> CHR ''/'') (rev path))"

definition path_join :: "string \<Rightarrow> string \<Rightarrow> string" where
  "path_join a b =
     (if b \<noteq> [] \<and> hd b = CHR ''/'' then b
      else if a = [] \<or> last a = CHR ''/'' then a @ b
      else a @ ''/'' @ b)"

text \<open>
  One round of the loop over the profiles. The result \<open>None\<close> is the end of the round (also by
  \<^verbatim>\<open>continue\<close>), \<open>Some e\<close> an exception, which leaves the loop and which the handler at the
  end of the function turns into \<^verbatim>\<open>(False, message)\<close>. The test for an existing output
  comes after the image has been resized and pasted, as in the source.
\<close>

definition process_profile :: "string \<Rightarrow> string \<Rightarrow> int \<Rightarrow> int \<Rightarrow> profile \<Rightarrow> world \<Rightarrow>
    world \<times> img_exn option" where
  "process_profile album_name image_path original_width original_height profile world =
     (let is_horizontal = original_height \<le> original_width
      in if (is_horizontal \<and> \<not> p_include_horizontal profile) \<or>
            (\<not> is_horizontal \<and> \<not> p_include_vertical profile)
         then (world, None)
         else
           (let output_dir_name = album_name @ ''_'' @ p_name profile;
                output_dir = path_join ''resized'' output_dir_name;
                world1 = world\<lparr>calls := calls world @ [Makedirs output_dir]\<rparr>
            in case letterbox_size original_width original_height (p_width profile) (p_height profile) of
                 Inl e \<Rightarrow> (world1, Some e)
               | Inr (new_width, new_height) \<Rightarrow>
                   if (new_width, new_height) \<noteq> (original_width, original_height) \<and>
                      (new_width < 1 \<or> new_height < 1)
                   then (world1, Some ValueError)
                   else if p_width profile < 0 \<or> p_height profile < 0
                   then (world1\<lparr>calls := calls world1 @ [Resize new_width new_height]\<rparr>,
                         Some ValueError)
                   else
                   (let paste_x = (p_width profile - new_width) div 2;
                        paste_y = (p_height profile - new_height) div 2;
                        new_img = \<lparr>canvas_size = (p_width profile, p_height profile),
                                   canvas_fill = (0, 0, 0),
                                   inner_size = (new_width, new_height),
                                   pasted_at = (paste_x, paste_y)\<rparr>;
                        world2 = world1\<lparr>calls := calls world1 @
                                   [Resize new_width new_height,
                                    New_image (p_width profile) (p_height profile) (0, 0, 0),
                                    Paste paste_x paste_y]\<rparr>;
                        output_path = path_join output_dir (basename image_path)
                    in (case files world2 output_path of
                          Some existing \<Rightarrow> (world2, None)
                        | None \<Rightarrow>
                            (world2\<lparr>files := (files world2)(output_path \<mapsto> new_img),
                                    calls := calls world2 @ [Save output_path]\<rparr>, None)))))"

text \<open>The value \<^verbatim>\<open>_resize_image_sync\<close> returns: \<^verbatim>\<open>(True, None)\<close>, or \<^verbatim>\<open>False\<close> with a message made
  from the exception.\<close>

datatype resize_result = Success | Failure img_exn

fun resize_profiles :: "string \<Rightarrow> string \<Rightarrow> int \<Rightarrow> int \<Rightarrow> profile list \<Rightarrow> world \<Rightarrow>
    world \<times> resize_result" where
  "resize_profiles album_name image_path original_width original_height [] world = (world, Success)"
| "resize_profiles album_name image_path original_width original_height (profile # profiles) world =
     (case process_profile album_name image_path original_width original_height profile world of
        (world', Some e) \<Rightarrow> (world', Failure e)
      | (world', None) \<Rightarrow>
          resize_profiles album_name image_path original_width original_height profiles world')"

text \<open>\<open>img\<close> is what \<^verbatim>\<open>Image.open\<close> and \<^verbatim>\<open>exif_transpose\<close> give for the path: the size of the
  decoded image, or \<open>None\<close> when the file cannot be opened or decoded.\<close>

definition resize_image_sync :: "string \<Rightarrow> profile list \<Rightarrow> string \<Rightarrow> (int \<times> int) option \<Rightarrow> world \<Rightarrow>
    world \<times> resize_result" where
  "resize_image_sync album_name profiles image_path img world =
     (case img of
        None \<Rightarrow> (world, Failure UnidentifiedImageError)
      | Some (original_width, original_height) \<Rightarrow>
          resize_profiles album_name image_path original_width original_height profiles world)"

text \<open>The profile of the specification's example, an empty output directory, and one that holds
  an output of an earlier run.\<close>

definition square_profile :: profile where
  "square_profile = \<lparr>p_name = ''square'', p_width = 1000, p_height = 1000,
                      p_include_horizontal = True, p_include_vertical = False\<rparr>"


definition earlier_output :: letterboxed where
  "earlier_output = \<lparr>canvas_size = (1000, 1000), canvas_fill = (0, 0, 0),
                      inner_size = (1000, 500), pasted_at = (0, 250)\<rparr>"

definition world_rerun :: world where
  "world_rerun = \<lparr>files = [''resized/Trip_square/beach.jpg'' \<mapsto> earlier_output], calls = []\<rparr>"

subsection \<open>Concrete stores\<close>

text \<open>An empty store and a schedule without faults.\<close>

definition db0 :: database where
  "db0 = \<lparr>downloaded_albums = [], downloaded_albums_seq = 0, album_chunks = [],
          download_tasks = [], resize_tasks = []\<rparr>"

definition never_busy :: "nat \<Rightarrow> fault" where
  "never_busy k = None"

text \<open>A store with one download task \<open>d1\<close> and one resize task \<open>r1\<close>, both just created;
  the same store after the resize has started and reached 5 of 10; and after the resize has
  completed with a two-byte archive.\<close>

definition db_tasks :: database where
  "db_tasks = db_after (create_resize_task 1 ''r1'' 1 1 10
                (db_after (create_download_task 1 ''d1'' ''a1'' ''Album'' 10 db0)))"

definition db_resizing :: database where
  "db_resizing = db_after (update_resize_task 2 None ''r1'' (Some ''running'') (Some 5) None
                    None None None None db_tasks)"

definition db_done :: database where
  "db_done = db_after (update_resize_task 9 None ''r1'' (Some ''completed'') (Some 10) (Some ''Done'')
                (Some [80, 75]) (Some 2) (Some 10) None db_tasks)"

section \<open>Properties of the chunk store\<close>

text \<open>The formula of the source for the image count of chunk \<open>i\<close> adds up to the photo count
  over the indices of a non-empty chunk list.\<close>

lemma indicator_sum: "r \<le> n \<Longrightarrow> (\<Sum>i = 0..<n. if i < r then (1::int) else 0) = int r"
  by (induction n) (auto simp: le_Suc_eq)

lemma chunk_photo_count_sum:
  assumes "0 < n"
  shows "sum_list (map (chunk_photo_count pc n) [0..<n]) = pc"
proof -
  let ?r = "nat (pc mod int n)"
  have "0 \<le> pc mod int n" "pc mod int n < int n" using assms by simp_all
  then have r: "int ?r = pc mod int n" "?r \<le> n" by linarith+
  have "sum_list (map (chunk_photo_count pc n) [0..<n]) = (\<Sum>i = 0..<n. chunk_photo_count pc n i)"
    by (simp add: interv_sum_list_conv_sum_set_nat)
  also have "\<dots> = (\<Sum>i = 0..<n. pc div int n + (if i < ?r then 1 else 0))"
    unfolding chunk_photo_count_def using r(1) by (intro sum.cong) auto
  also have "\<dots> = int n * (pc div int n) + int ?r"
    using indicator_sum[OF r(2)] by (simp add: sum.distrib)
  also have "\<dots> = pc" using r(1) by simp
  finally show ?thesis .
qed

text \<open>Every call of \<^verbatim>\<open>save_downloaded_album_chunked\<close> ends at the first \<^verbatim>\<open>async with\<close>: the
  \<^verbatim>\<open>TypeError\<close> is not an \<^verbatim>\<open>OperationalError\<close>, so it leaves the function, and the store is as
  it was.\<close>

lemma save_downloaded_album_chunked_raises:
  "save_downloaded_album_chunked now busy album_id album_name photo_count chunks db =
     \<lparr>db_after = db, printed = [], outcome = Raised TypeError\<rparr>"
  by (simp add: save_downloaded_album_chunked_def get_connection_def)

text \<open>
  Claim C1 fails on the code. The claim has chunk \<open>i\<close> stored with its share of the photo
  count; the call raises \<^verbatim>\<open>TypeError\<close> before the summary row is inserted, for every photo
  count and chunk list, and adds no chunk row to the store. With the ten photos and three
  chunks of the specification's example the stored counts are none, not \<open>4, 3, 3\<close>.
\<close>

theorem save_downloaded_album_chunked_stores_no_chunk:
  "outcome (save_downloaded_album_chunked now busy album_id album_name photo_count chunks db) =
     Raised TypeError \<and>
   new_chunk_rows db
     (db_after (save_downloaded_album_chunked now busy album_id album_name photo_count chunks db)) = [] \<and>
   map ac_photo_count (new_chunk_rows db0
     (db_after (save_downloaded_album_chunked 0 never_busy ''a1'' ''Album'' 10 [[1], [2, 3], [4]] db0))) = []"
proof -
  have "new_chunk_rows db db = []" for db
    by (simp add: new_chunk_rows_def)
  then show ?thesis
    unfolding save_downloaded_album_chunked_raises by simp
qed

text \<open>
  Claim C8 fails on the code. The claim has the summary row committed first, a prefix of the
  chunks durable after a failure, and a store error reported by the return value; the call
  commits no summary row, changes nothing in the store, prints nothing and does not return:
  it raises \<^verbatim>\<open>TypeError\<close> to its caller, whatever the fault schedule of the store.
\<close>

theorem save_downloaded_album_chunked_raises_before_summary:
  "db_after (save_downloaded_album_chunked now busy album_id album_name photo_count chunks db) = db \<and>
   printed (save_downloaded_album_chunked now busy album_id album_name photo_count chunks db) = [] \<and>
   \<not> is_returned
     (outcome (save_downloaded_album_chunked now busy album_id album_name photo_count chunks db)) \<and>
   downloaded_albums (db_after
     (save_downloaded_album_chunked 7 never_busy ''a1'' ''Album'' 10 [[1], [2, 3], [4]] db0)) = []"
  unfolding save_downloaded_album_chunked_raises by (simp add: db0_def)

section \<open>Properties of the task records\<close>

lemma fold_status_updates_resize:
  "t_completed_at (fold (assign_resize_task now) (status_updates status) row) =
     (if status = Some ''completed'' then Some now else t_completed_at row)"
  "t_progress (fold (assign_resize_task now) (status_updates status) row) = t_progress row"
  "t_total (fold (assign_resize_task now) (status_updates status) row) = t_total row"
  by (simp_all add: status_updates_def split: option.split)

lemma fold_progress_updates_resize:
  "t_completed_at (fold (assign_resize_task now) (progress_updates progress) row) = t_completed_at row"
  "t_progress (fold (assign_resize_task now) (progress_updates progress) row) =
     (case progress of Some p \<Rightarrow> p | None \<Rightarrow> t_progress row)"
  "t_total (fold (assign_resize_task now) (progress_updates progress) row) = t_total row"
  by (simp_all add: progress_updates_def split: option.split)

lemma fold_current_step_updates_resize:
  "t_completed_at (fold (assign_resize_task now) (current_step_updates current_step) row) = t_completed_at row"
  "t_progress (fold (assign_resize_task now) (current_step_updates current_step) row) = t_progress row"
  "t_total (fold (assign_resize_task now) (current_step_updates current_step) row) = t_total row"
  by (simp_all add: current_step_updates_def split: option.split)

lemma fold_zip_data_updates_resize:
  "t_completed_at (fold (assign_resize_task now) (zip_data_updates zip_data) row) = t_completed_at row"
  "t_progress (fold (assign_resize_task now) (zip_data_updates zip_data) row) = t_progress row"
  "t_total (fold (assign_resize_task now) (zip_data_updates zip_data) row) = t_total row"
  by (simp_all add: zip_data_updates_def split: option.split)

lemma fold_zip_size_updates_resize:
  "t_completed_at (fold (assign_resize_task now) (zip_size_updates zip_size) row) = t_completed_at row"
  "t_progress (fold (assign_resize_task now) (zip_size_updates zip_size) row) = t_progress row"
  "t_total (fold (assign_resize_task now) (zip_size_updates zip_size) row) = t_total row"
  by (simp_all add: zip_size_updates_def split: option.split)

lemma fold_processed_count_updates_resize:
  "t_completed_at (fold (assign_resize_task now) (processed_count_updates processed_count) row) = t_completed_at row"
  "t_progress (fold (assign_resize_task now) (processed_count_updates processed_count) row) = t_progress row"
  "t_total (fold (assign_resize_task now) (processed_count_updates processed_count) row) = t_total row"
  by (simp_all add: processed_count_updates_def split: option.split)

lemma fold_total_updates_resize:
  "t_completed_at (fold (assign_resize_task now) (total_updates total_count) row) = t_completed_at row"
  "t_progress (fold (assign_resize_task now) (total_updates total_count) row) = t_progress row"
  "t_total (fold (assign_resize_task now) (total_updates total_count) row) =
     (case total_count of Some t \<Rightarrow> t | None \<Rightarrow> t_total row)"
  by (simp_all add: total_updates_def split: option.split)

lemmas fold_updates = fold_status_updates_resize fold_progress_updates_resize
  fold_current_step_updates_resize fold_zip_data_updates_resize fold_zip_size_updates_resize
  fold_processed_count_updates_resize fold_total_updates_resize

lemma progress_resize:
  "map t_progress (resize_tasks (db_after (update_resize_task now busy task_id status progress
       current_step zip_data zip_size processed_count total_count db))) =
   map (\<lambda>row. case progress of
                Some p \<Rightarrow> if busy = None \<and> t_id row = task_id then p else t_progress row
              | None \<Rightarrow> t_progress row) (resize_tasks db)"
proof (cases busy)
  case None
  let ?ups = "status_updates status @ progress_updates progress @
      current_step_updates current_step @ zip_data_updates zip_data @
      zip_size_updates zip_size @ processed_count_updates processed_count @
      total_updates total_count"
  show ?thesis
  proof (cases "?ups = []")
    case True
    then have "progress = None" by (auto simp: progress_updates_def split: option.splits)
    with True show ?thesis by (simp add: update_resize_task_def)
  next
    case False
    with None show ?thesis
      by (auto simp add: update_resize_task_def Let_def sql_update_def fold_updates split: option.splits)
  qed
next
  case (Some msg)
  then show ?thesis by (simp add: update_resize_task_def Let_def split: option.splits)
qed

lemmas concrete_defs = db_tasks_def db_done_def db_resizing_def create_resize_task_def
  create_download_task_def db0_def update_resize_task_def Let_def sql_update_def
  status_updates_def progress_updates_def current_step_updates_def
  zip_data_updates_def zip_size_updates_def processed_count_updates_def total_updates_def
  resize_task_def get_resize_task_zip_def

lemma find_sql_update:
  assumes "\<And>row. key (fold assign ups row) = key row"
  shows "find (\<lambda>row. key row = tid') (sql_update assign key ups tid rows) =
     map_option (\<lambda>row. if key row = tid then fold assign ups row else row)
       (find (\<lambda>row. key row = tid') rows)"
  unfolding sql_update_def using assms by (induction rows) auto

lemma fold_assign_resize_task_id: "t_id (fold (assign_resize_task now) ups row) = t_id row"
proof (induction ups arbitrary: row)
  case Nil
  then show ?case by simp
next
  case (Cons a ups)
  then show ?case by (cases a) simp_all
qed

lemma find_unique:
  "distinct (map key rows) \<Longrightarrow> row \<in> set rows \<Longrightarrow> P row \<Longrightarrow>
   find (\<lambda>r. key r = key row \<and> P r) rows = Some row"
  by (induction rows) (auto simp: image_iff)

text \<open>An update of a download task with something to set ends at \<^verbatim>\<open>async with\<close>: the
  \<^verbatim>\<open>TypeError\<close> passes the handler, and the store is as it was.\<close>

lemma update_download_task_raises:
  assumes "status_updates status @ progress_updates progress @ current_step_updates current_step \<noteq> []"
  shows "update_download_task now busy task_id status progress current_step db =
     \<lparr>db_after = db, printed = [], outcome = Raised TypeError\<rparr>"
  using assms by (simp add: update_download_task_def Let_def get_connection_def)

lemma update_download_task_total_raises:
  "update_download_task_total busy task_id total_count db =
     \<lparr>db_after = db, printed = [], outcome = Raised TypeError\<rparr>"
  by (simp add: update_download_task_total_def get_connection_def)

text \<open>
  Claim C3, as amended, for the updates of resize tasks. An update stamps \<open>completed_at\<close>
  exactly when it is committed and sets the status to \<^verbatim>\<open>completed\<close>: then every row of the
  task's id gets the current time, also when the column is set already. Every other update,
  one that sets the status to \<^verbatim>\<open>failed\<close> among them, leaves \<open>completed_at\<close> of every row as
  it was.
\<close>

theorem completed_at_stamped_by_completed_only:
  "map t_completed_at (resize_tasks (db_after
       (update_resize_task now busy task_id status progress current_step zip_data zip_size
          processed_count total_count db))) =
     map (\<lambda>row. if busy = None \<and> t_id row = task_id \<and> status = Some ''completed'' then Some now
                else t_completed_at row) (resize_tasks db)"
proof (cases busy)
  case None
  let ?ups = "status_updates status @ progress_updates progress @
      current_step_updates current_step @ zip_data_updates zip_data @
      zip_size_updates zip_size @ processed_count_updates processed_count @
      total_updates total_count"
  show ?thesis
  proof (cases "?ups = []")
    case True
    then have "status \<noteq> Some ''completed''" by (auto simp: status_updates_def)
    with True show ?thesis by (simp add: update_resize_task_def)
  next
    case False
    with None show ?thesis
      by (auto simp add: update_resize_task_def Let_def sql_update_def fold_updates)
  qed
next
  case (Some msg)
  then show ?thesis by (simp add: update_resize_task_def Let_def)
qed

text \<open>
  Claim C3 as stated fails: setting the status of a resize task to \<^verbatim>\<open>failed\<close> is committed
  and leaves \<open>completed_at\<close> \<^verbatim>\<open>NULL\<close>, and a second update to \<^verbatim>\<open>completed\<close> replaces the stamp
  of the first (9 becomes 12), so the column is not written once only.
\<close>

theorem failed_update_not_stamped_counterexample:
  "map t_status (resize_tasks (db_after
      (update_resize_task 5 None ''r1'' (Some ''failed'') None None None None None None db_tasks))) =
     [''failed''] \<and>
   map t_completed_at (resize_tasks (db_after
      (update_resize_task 5 None ''r1'' (Some ''failed'') None None None None None None db_tasks))) = [None] \<and>
   map t_completed_at (resize_tasks db_done) = [Some 9] \<and>
   map t_completed_at (resize_tasks (db_after
      (update_resize_task 12 None ''r1'' (Some ''completed'') None None None None None None db_done))) = [Some 12]"
  by (simp add: concrete_defs)

text \<open>
  Claim C7 as stated fails: on a running resize task with progress 5 of 10, an update that
  carries progress 3 is committed, so a reader of the store finds 5 and then 3; one that
  carries 11 is committed too and exceeds the total 10.
\<close>

theorem progress_overwritten_counterexample:
  "map t_status (resize_tasks db_resizing) = [''running''] \<and>
   map t_progress (resize_tasks db_resizing) = [5] \<and>
   map t_total (resize_tasks db_resizing) = [10] \<and>
   map t_progress (resize_tasks (db_after
      (update_resize_task 3 None ''r1'' None (Some 3) None None None None None db_resizing))) = [3] \<and>
   map t_progress (resize_tasks (db_after
      (update_resize_task 4 None ''r1'' None (Some 11) None None None None None db_resizing))) = [11] \<and>
   map t_total (resize_tasks (db_after
      (update_resize_task 4 None ''r1'' None (Some 11) None None None None None db_resizing))) = [10]"
  by (simp add: concrete_defs)

text \<open>
  Claim C4 fails on the code for resize tasks: on a locked store \<^verbatim>\<open>update_resize_task\<close> raises
  \<^verbatim>\<open>OperationalError\<close> to its caller, prints nothing and leaves the store as it was.
\<close>

theorem update_resize_task_raises_when_busy:
  "update_resize_task 3 (Some ''database is locked'') ''r1'' (Some ''running'') (Some 3) None None None None None db_tasks =
     \<lparr>db_after = db_tasks, printed = [], outcome = Raised (OperationalError ''database is locked'')\<rparr>"
  by (simp add: update_resize_task_def Let_def status_updates_def)

text \<open>
  Claim C7, as amended, for the updates of resize tasks. A committed update that carries a
  progress value stores that value in every row of the task's id, whatever the stored
  progress and total are; any other update leaves the progress of every row as it was. So
  an update that sets no total keeps the stored progress from decreasing, and at most the
  total, when the value it carries (if any) is at least the stored progress and at most the
  total.
\<close>

theorem progress_written_as_given:
  "map t_progress (resize_tasks (db_after (update_resize_task now busy task_id status progress
         current_step zip_data zip_size processed_count total_count db))) =
     map (\<lambda>row. case progress of
                  Some p \<Rightarrow> if busy = None \<and> t_id row = task_id then p else t_progress row
                | None \<Rightarrow> t_progress row) (resize_tasks db) \<and>
   (resize_task db task_id = Some row \<and> t_progress row \<le> t_total row \<and> total_count = None \<and>
    (\<forall>p. progress = Some p \<longrightarrow> t_progress row \<le> p \<and> p \<le> t_total row) \<longrightarrow>
    (\<exists>row'. resize_task (db_after (update_resize_task now busy task_id status progress
         current_step zip_data zip_size processed_count total_count db)) task_id = Some row' \<and>
       t_progress row \<le> t_progress row' \<and> t_progress row' \<le> t_total row'))"
proof -
  have inv: "\<exists>row'. resize_task (db_after (update_resize_task now busy task_id status progress
         current_step zip_data zip_size processed_count total_count db)) task_id = Some row' \<and>
       t_progress row \<le> t_progress row' \<and> t_progress row' \<le> t_total row'"
    if "resize_task db task_id = Some row" "t_progress row \<le> t_total row" "total_count = None"
       "\<forall>p. progress = Some p \<longrightarrow> t_progress row \<le> p \<and> p \<le> t_total row"
    using that
    by (cases busy)
      (auto simp: update_resize_task_def Let_def resize_task_def find_sql_update fold_assign_resize_task_id
        fold_updates split: if_splits option.splits)
  show ?thesis using progress_resize inv by blast
qed

text \<open>The amended claim on the running resize task: from 5 of 10 to 7 of 10.\<close>

theorem progress_written_as_given_witness:
  "resize_task db_resizing ''r1'' =
     Some \<lparr>t_id = ''r1'', t_status = ''running'', t_progress = 5, t_total = 10,
           t_current_step = Some ''Initializing...'', t_created_at = 1, t_completed_at = None,
           rt_downloaded_album_id = 1, rt_profile_id = 1, rt_zip_data = None, rt_zip_size = 0,
           rt_processed_count = 0\<rparr> \<and>
   (\<exists>row'. resize_task (db_after (update_resize_task 3 None ''r1'' None (Some 7) None
        None None None None db_resizing)) ''r1'' = Some row' \<and>
       5 \<le> t_progress row' \<and> t_progress row' \<le> t_total row')"
proof -
  let ?row = "\<lparr>t_id = ''r1'', t_status = ''running'', t_progress = 5, t_total = 10,
           t_current_step = Some ''Initializing...'', t_created_at = 1, t_completed_at = None,
           rt_downloaded_album_id = 1, rt_profile_id = 1, rt_zip_data = None, rt_zip_size = 0,
           rt_processed_count = 0\<rparr>"
  have h: "resize_task db_resizing ''r1'' = Some ?row" by (simp add: concrete_defs)
  have h2: "t_progress ?row \<le> t_total ?row \<and>
      (\<forall>p. Some 7 = Some p \<longrightarrow> t_progress ?row \<le> p \<and> p \<le> t_total ?row)" by simp
  from progress_written_as_given[of 3 None "''r1''" None "Some 7" None None None None None db_resizing ?row]
    h h2
  show ?thesis by simp
qed

text \<open>
  Claim C10. With task ids unique in the table (\<open>id\<close> is its primary key),
  \<^verbatim>\<open>get_resize_task_zip\<close> returns the bytes \<open>data\<close> exactly when a task of the given id is
  in status \<^verbatim>\<open>completed\<close> and its archive column holds \<open>data\<close>; it returns \<^verbatim>\<open>None\<close> when no
  task of that id is in status \<^verbatim>\<open>completed\<close>, which covers an unknown id and the statuses
  \<^verbatim>\<open>pending\<close>, \<^verbatim>\<open>running\<close> and \<^verbatim>\<open>failed\<close>; and it leaves the store as it was.
\<close>

theorem get_resize_task_zip_completed_only:
  assumes "distinct (map t_id (resize_tasks db))"
  shows "(outcome (get_resize_task_zip task_id db) = Returned (Some data) \<longleftrightarrow>
           (\<exists>row \<in> set (resize_tasks db). t_id row = task_id \<and> t_status row = ''completed'' \<and>
              rt_zip_data row = Some data)) \<and>
         ((\<forall>row \<in> set (resize_tasks db). t_id row = task_id \<longrightarrow> t_status row \<noteq> ''completed'') \<longrightarrow>
            outcome (get_resize_task_zip task_id db) = Returned None) \<and>
         db_after (get_resize_task_zip task_id db) = db"
proof -
  let ?P = "\<lambda>row. t_id row = task_id \<and> t_status row = ''completed''"
  have fwd: "\<exists>row \<in> set (resize_tasks db). ?P row \<and> rt_zip_data row = Some data"
    if "outcome (get_resize_task_zip task_id db) = Returned (Some data)"
  proof -
    from that obtain row where f: "find ?P (resize_tasks db) = Some row" and z: "rt_zip_data row = Some data"
      by (auto simp: get_resize_task_zip_def Let_def split: option.splits)
    from f have "row \<in> set (resize_tasks db)" "?P row"
      by (auto simp: find_Some_iff)
    with z show ?thesis by blast
  qed
  have bwd: "outcome (get_resize_task_zip task_id db) = Returned (Some data)"
    if "row \<in> set (resize_tasks db)" "?P row" "rt_zip_data row = Some data" for row
  proof -
    have "find (\<lambda>r. t_id r = t_id row \<and> t_status r = ''completed'') (resize_tasks db) = Some row"
      using find_unique[OF assms that(1), of "\<lambda>r. t_status r = ''completed''"] that(2) by simp
    with that show ?thesis by (simp add: get_resize_task_zip_def Let_def)
  qed
  have none: "outcome (get_resize_task_zip task_id db) = Returned None"
    if "\<forall>row \<in> set (resize_tasks db). t_id row = task_id \<longrightarrow> t_status row \<noteq> ''completed''"
  proof -
    have "find ?P (resize_tasks db) = None" using that by (auto simp: find_None_iff)
    then show ?thesis by (simp add: get_resize_task_zip_def Let_def)
  qed
  have same: "db_after (get_resize_task_zip task_id db) = db"
    by (simp add: get_resize_task_zip_def Let_def)
  show ?thesis using fwd bwd none same by blast
qed

text \<open>The three cases on concrete stores: a completed task with an archive, a pending task, an
  unknown id.\<close>

theorem get_resize_task_zip_completed_only_witness:
  "distinct (map t_id (resize_tasks db_done)) \<and>
   outcome (get_resize_task_zip ''r1'' db_done) = Returned (Some [80, 75]) \<and>
   distinct (map t_id (resize_tasks db_tasks)) \<and>
   outcome (get_resize_task_zip ''r1'' db_tasks) = Returned None \<and>
   outcome (get_resize_task_zip ''zz'' db_done) = Returned None"
proof -
  have d: "distinct (map t_id (resize_tasks db_done))" by (simp add: concrete_defs)
  have d': "distinct (map t_id (resize_tasks db_tasks))" by (simp add: concrete_defs)
  have e: "\<exists>row \<in> set (resize_tasks db_done). t_id row = ''r1'' \<and> t_status row = ''completed'' \<and>
      rt_zip_data row = Some [80, 75]" by (simp add: concrete_defs)
  have p: "\<forall>row \<in> set (resize_tasks db_tasks). t_id row = ''r1'' \<longrightarrow> t_status row \<noteq> ''completed''"
    by (simp add: concrete_defs)
  have u: "\<forall>row \<in> set (resize_tasks db_done). t_id row = ''zz'' \<longrightarrow> t_status row \<noteq> ''completed''"
    by (simp add: concrete_defs)
  from get_resize_task_zip_completed_only[OF d, of "''r1''" "[80, 75]"] e
  have 1: "outcome (get_resize_task_zip ''r1'' db_done) = Returned (Some [80, 75])" by blast
  from get_resize_task_zip_completed_only[OF d', of "''r1''"] p
  have 2: "outcome (get_resize_task_zip ''r1'' db_tasks) = Returned None" by blast
  from get_resize_task_zip_completed_only[OF d, of "''zz''"] u
  have 3: "outcome (get_resize_task_zip ''zz'' db_done) = Returned None" by blast
  from d d' 1 2 3 show ?thesis by blast
qed

section \<open>Properties of the asset count and of the resize engine\<close>

subsection \<open>Rounding to double precision\<close>

lemma floor_rat_numeral [simp]: "\<lfloor>numeral a / numeral b :: rat\<rfloor> = numeral a div numeral b"
  using floor_divide_of_int_eq[of "numeral a" "numeral b", where ?'a = rat] by simp

lemma ceiling_rat_numeral [simp]: "\<lceil>numeral a / numeral b :: rat\<rceil> = - (- numeral a div numeral b)"
  using ceiling_divide_eq_div[of "numeral a" "numeral b", where ?'a = rat] by simp

lemma ilog2_bounds: "0 < n \<Longrightarrow> 2 ^ ilog2 n \<le> n \<and> n < 2 ^ Suc (ilog2 n)"
proof (induction n rule: ilog2.induct)
  case (1 n)
  show ?case
  proof (cases "n < 2")
    case True
    then have "ilog2 n = 0" by (subst ilog2.simps) simp
    with True 1(2) show ?thesis by simp
  next
    case False
    then have e: "ilog2 n = Suc (ilog2 (n div 2))" by (subst ilog2.simps) simp
    from False have "0 < n div 2" by simp
    with 1(1) False have "2 ^ ilog2 (n div 2) \<le> n div 2 \<and> n div 2 < 2 ^ Suc (ilog2 (n div 2))"
      by simp
    moreover define a where "a = (2::nat) ^ ilog2 (n div 2)"
    ultimately have "a \<le> n div 2" "n div 2 < 2 * a" by simp_all
    then have "2 * a \<le> n" "n < 2 * (2 * a)" by linarith+
    then show ?thesis unfolding e a_def by simp
  qed
qed

lemma pow2_powi: "pow2 k = 2 powi k"
  by (simp add: pow2_def power_int_def power_inverse inverse_eq_divide power_one_over)

lemma pow2_pos [simp]: "0 < pow2 k"
  by (simp add: pow2_powi)

lemma pow2_add: "pow2 (a + b) = pow2 a * pow2 b"
  by (simp add: pow2_powi power_int_add)

lemma pow2_of_nat: "pow2 (int n) = 2 ^ n"
  by (simp add: pow2_def)

lemma pow2_neg_nat: "pow2 (- int n) = 1 / 2 ^ n"
  by (auto simp: pow2_def)

lemma pow2_less_imp_less: "pow2 a < pow2 b \<Longrightarrow> a < b"
proof (rule ccontr)
  assume l: "pow2 a < pow2 b" and "\<not> a < b"
  then have "b \<le> a" by simp
  then have "(2::rat) powi b \<le> 2 powi a" by (intro power_int_increasing) simp_all
  with l show False by (simp add: pow2_powi)
qed

lemma binade_bounds:
  assumes "0 < x"
  shows "pow2 (binade x) \<le> x" and "x < pow2 (binade x + 1)"
proof -
  have "pow2 (binade x) \<le> x \<and> x < pow2 (binade x + 1)"
  proof (cases "1 \<le> x")
    case True
    let ?n = "nat \<lfloor>x\<rfloor>"
    have n: "0 < ?n" using True by simp
    have b: "binade x = int (ilog2 ?n)" using True by (simp add: binade_def)
    from ilog2_bounds[OF n] have lo: "2 ^ ilog2 ?n \<le> ?n" and hi: "?n < 2 ^ Suc (ilog2 ?n)" by simp_all
    have fl: "(of_nat ?n :: rat) = of_int \<lfloor>x\<rfloor>" using True by simp
    have "(2::rat) ^ ilog2 ?n = of_nat (2 ^ ilog2 ?n)" by simp
    also have "\<dots> \<le> of_nat ?n" using lo by (simp only: of_nat_le_iff)
    also have "\<dots> \<le> x" unfolding fl by simp
    finally have 1: "pow2 (binade x) \<le> x" unfolding b pow2_of_nat .
    have "x < of_int \<lfloor>x\<rfloor> + 1" by linarith
    also have "\<dots> = of_nat (Suc ?n)" using fl by simp
    also have "\<dots> \<le> of_nat (2 ^ Suc (ilog2 ?n))" using hi by (simp only: of_nat_le_iff Suc_le_eq)
    also have "\<dots> = (2::rat) ^ Suc (ilog2 ?n)" by simp
    finally have 2: "x < pow2 (binade x + 1)"
      unfolding b using pow2_of_nat[of "Suc (ilog2 ?n)"] by (simp add: add.commute)
    from 1 2 show ?thesis ..
  next
    case False
    let ?y = "1 / x"
    let ?m = "nat \<lceil>?y\<rceil>"
    let ?k = "Suc (ilog2 (?m - 1))"
    have y: "1 < ?y" using False assms by simp
    then have c: "2 \<le> \<lceil>?y\<rceil>" by linarith
    then have m: "0 < ?m - 1" by simp
    have b: "binade x = - int ?k" using False by (simp add: binade_def)
    from ilog2_bounds[OF m] have lo: "2 ^ ilog2 (?m - 1) \<le> ?m - 1" and hi: "?m - 1 < 2 ^ ?k" by simp_all
    have cm: "(of_nat ?m :: rat) = of_int \<lceil>?y\<rceil>" using c by simp
    have mi: "int (?m - 1) = \<lceil>?y\<rceil> - 1" using c by linarith
    have "?y \<le> of_int \<lceil>?y\<rceil>" by linarith
    also have "\<dots> = of_nat ?m" using cm by simp
    also have "\<dots> \<le> of_nat (2 ^ ?k)"
    proof -
      have "?m \<le> 2 ^ ?k" using hi by linarith
      then show ?thesis by (simp only: of_nat_le_iff)
    qed
    also have "\<dots> = (2::rat) ^ ?k" by simp
    finally have "1 / x \<le> 2 ^ ?k" .
    then have "1 \<le> 2 ^ ?k * x" using assms by (simp add: field_simps)
    then have 1: "pow2 (binade x) \<le> x" unfolding b pow2_neg_nat by (simp add: field_simps)
    have "(2::rat) ^ ilog2 (?m - 1) = of_nat (2 ^ ilog2 (?m - 1))" by simp
    also have "\<dots> \<le> of_nat (?m - 1)" using lo by (simp only: of_nat_le_iff)
    also have "\<dots> = of_int (int (?m - 1))" by (simp only: of_int_of_nat_eq)
    also have "\<dots> = of_int (\<lceil>?y\<rceil> - 1)" using mi by (simp only:)
    also have "\<dots> = of_int \<lceil>?y\<rceil> - 1" by simp
    also have "\<dots> < ?y" by linarith
    finally have "2 ^ ilog2 (?m - 1) < 1 / x" .
    then have "2 ^ ilog2 (?m - 1) * x < 1" using assms by (simp add: field_simps)
    then have "x < 1 / 2 ^ ilog2 (?m - 1)" by (simp add: field_simps)
    moreover have "binade x + 1 = - int (ilog2 (?m - 1))" unfolding b by simp
    ultimately have 2: "x < pow2 (binade x + 1)" by (simp add: pow2_neg_nat)
    from 1 2 show ?thesis ..
  qed
  then show "pow2 (binade x) \<le> x" and "x < pow2 (binade x + 1)" by simp_all
qed

lemma round_half_even_error: "\<bar>of_int (round_half_even r) - r\<bar> \<le> 1 / 2"
proof -
  have "of_int \<lfloor>r\<rfloor> \<le> r" "r < of_int \<lfloor>r\<rfloor> + 1" by linarith+
  then show ?thesis
    unfolding round_half_even_def Let_def by (simp split: if_splits)
qed

lemma round_half_even_of_int [simp]: "round_half_even (of_int k) = k"
  by (simp add: round_half_even_def)



lemma fl_rel_error:
  assumes "0 < x" and "pow2 (- 1022) \<le> x" and "x < pow2 1023"
  shows "\<exists>y. fl x = Some y \<and> \<bar>y - x\<bar> \<le> x * unit_roundoff"
proof -
  define e where "e = binade x"
  define ulp where "ulp = pow2 (e - 52)"
  define m where "m = round_half_even (x / ulp)"
  define y where "y = of_int m * ulp"
  have lo: "pow2 e \<le> x" and hi: "x < pow2 (e + 1)"
    unfolding e_def using binade_bounds[OF assms(1)] by simp_all
  from assms(2) hi have "pow2 (- 1022) < pow2 (e + 1)" by simp
  then have e_lo: "- 1022 \<le> e" using pow2_less_imp_less by fastforce
  have ulp_pos: "0 < ulp" by (simp add: ulp_def)
  have ulp: "ulp * 2 ^ 52 = pow2 e"
    using pow2_add[of "e - 52" 52] by (simp add: ulp_def pow2_def)
  have "\<bar>of_int m - x / ulp\<bar> \<le> 1 / 2" unfolding m_def by (rule round_half_even_error)
  then have "\<bar>of_int m - x / ulp\<bar> * ulp \<le> 1 / 2 * ulp"
    using ulp_pos by (intro mult_right_mono) simp_all
  moreover have "\<bar>of_int m - x / ulp\<bar> * ulp = \<bar>y - x\<bar>"
  proof -
    have "(of_int m - x / ulp) * ulp = y - x"
      using ulp_pos by (simp add: y_def left_diff_distrib)
    then have "\<bar>y - x\<bar> = \<bar>of_int m - x / ulp\<bar> * \<bar>ulp\<bar>"
      by (simp only: abs_mult[symmetric])
    then show ?thesis using ulp_pos by simp
  qed
  ultimately have err: "\<bar>y - x\<bar> \<le> ulp / 2" by simp
  have "ulp / 2 = pow2 e * unit_roundoff" using ulp by (simp add: unit_roundoff_def field_simps)
  also have "\<dots> \<le> x * unit_roundoff" using lo by (simp add: unit_roundoff_def)
  finally have rel: "\<bar>y - x\<bar> \<le> x * unit_roundoff" using err by simp
  have "y \<le> x + x * unit_roundoff" using rel by linarith
  also have "\<dots> < pow2 1023 + pow2 1023 * unit_roundoff"
    using assms(3) by (simp add: unit_roundoff_def add_strict_mono)
  also have "\<dots> \<le> pow2 1024" by (simp add: pow2_def unit_roundoff_def)
  finally have no_overflow: "\<not> pow2 1024 \<le> y" by simp
  have ax: "\<bar>x\<bar> = x" and sx: "sgn x = 1" and nz: "x \<noteq> 0" using assms(1) by simp_all
  have mx: "max (binade x) (- 1022) = e" using e_lo by (simp only: e_def max_def) simp
  have "fl x = (if pow2 1024 \<le> y then None else Some (1 * y))"
    unfolding fl_def Let_def ax sx mx y_def m_def ulp_def using nz by (simp only: if_False)
  then have "fl x = Some y" using no_overflow by simp
  with rel show ?thesis by blast
qed

lemma fl_of_int:
  assumes "0 < n" and "n < 2 ^ 53"
  shows "fl (of_int n) = Some (of_int n)"
proof -
  define x :: rat where "x = of_int n"
  define e where "e = binade x"
  have "(0::rat) < of_int n" using assms(1) by simp
  moreover have "(1::rat) \<le> of_int n" using assms(1) by (simp add: int_one_le_iff_zero_less)
  moreover have "(of_int n :: rat) < of_int (2 ^ 53)" using assms(2) by (simp only: of_int_less_iff)
  ultimately have x: "0 < x" "1 \<le> x" "x < 2 ^ 53" by (simp_all add: x_def)
  have lo: "pow2 e \<le> x" and hi: "x < pow2 (e + 1)"
    unfolding e_def using binade_bounds[OF x(1)] by simp_all
  have "pow2 0 < pow2 (e + 1)" using x(2) hi by (simp add: pow2_def)
  then have e0: "0 \<le> e" using pow2_less_imp_less by fastforce
  have "pow2 e < pow2 53" using lo x(3) by (simp add: pow2_def)
  then have e52: "e \<le> 52" using pow2_less_imp_less by fastforce
  define k where "k = nat (52 - e)"
  have ulp: "pow2 (e - 52) = 1 / 2 ^ k"
    using pow2_neg_nat[of k] e52 by (simp add: k_def)
  have q: "x / pow2 (e - 52) = of_int (n * 2 ^ k)" by (simp add: ulp x_def)
  have y: "of_int (round_half_even (x / pow2 (e - 52))) * pow2 (e - 52) = x"
    unfolding q round_half_even_of_int by (simp add: ulp x_def)
  have "(2::rat) ^ 53 \<le> pow2 1024" by (simp add: pow2_def)
  then have no_overflow: "\<not> pow2 1024 \<le> x" using x(3) by simp
  have ax: "\<bar>x\<bar> = x" and sx: "sgn x = 1" and nz: "x \<noteq> 0" using x(1) by simp_all
  have mx: "max (binade x) (- 1022) = e" using e0 by (simp only: e_def max_def) simp
  have "fl x = (if pow2 1024 \<le> x then None else Some (1 * x))"
    unfolding fl_def Let_def ax sx mx y using nz by (simp only: if_False)
  then show ?thesis using no_overflow by (simp add: x_def)
qed

lemma fl_near:
  assumes "1 / 2 ^ 60 \<le> x" and "x \<le> 2 ^ 60"
  shows "\<exists>y. fl x = Some y \<and> x * (1 - unit_roundoff) \<le> y \<and> y \<le> x * (1 + unit_roundoff)"
proof -
  have "(0::rat) < 1 / 2 ^ 60" by simp
  with assms(1) have pos: "0 < x" by linarith
  have "pow2 (- 1022) \<le> 1 / 2 ^ 60" by (simp add: pow2_def)
  with assms(1) have lo: "pow2 (- 1022) \<le> x" by linarith
  have "(2::rat) ^ 60 < pow2 1023" by (simp add: pow2_def)
  with assms(2) have hi: "x < pow2 1023" by linarith
  from fl_rel_error[OF pos lo hi] obtain y where y: "fl x = Some y" "\<bar>y - x\<bar> \<le> x * unit_roundoff"
    by blast
  from y(2) have "x * (1 - unit_roundoff) \<le> y" "y \<le> x * (1 + unit_roundoff)"
    by (simp_all add: algebra_simps abs_le_iff)
  with y(1) show ?thesis by blast
qed

lemma aspect_near:
  assumes "0 < a" "a \<le> 2 ^ 50" "0 < b" "b \<le> 2 ^ 50"
  shows "\<exists>q. int_truediv a b = Inr q \<and>
           of_int a / of_int b * (1 - unit_roundoff) \<le> q \<and>
           q \<le> of_int a / of_int b * (1 + unit_roundoff) \<and>
           1 / 2 ^ 50 \<le> of_int a / (of_int b :: rat) \<and> of_int a / (of_int b :: rat) \<le> 2 ^ 50"
proof -
  define A :: rat where "A = of_int a"
  define B :: rat where "B = of_int b"
  have "(of_int a :: rat) \<le> of_int (2 ^ 50)" using assms(2) by (simp only: of_int_le_iff)
  moreover have "(of_int b :: rat) \<le> of_int (2 ^ 50)" using assms(4) by (simp only: of_int_le_iff)
  moreover have "(1::rat) \<le> of_int a" "(1::rat) \<le> of_int b"
    using assms(1,3) by (simp_all add: int_one_le_iff_zero_less)
  ultimately have A: "1 \<le> A" "A \<le> 2 ^ 50" and B: "1 \<le> B" "B \<le> 2 ^ 50"
    by (simp_all add: A_def B_def)
  have lo: "1 / 2 ^ 50 \<le> A / B" using A B by (simp add: field_simps) 
  have hi: "A / B \<le> 2 ^ 50" using A B by (simp add: field_simps)
  have "(1::rat) / 2 ^ 60 \<le> 1 / 2 ^ 50" "(2::rat) ^ 50 \<le> 2 ^ 60" by simp_all
  with lo hi have "1 / 2 ^ 60 \<le> A / B" "A / B \<le> 2 ^ 60" by linarith+
  then obtain q where q: "fl (A / B) = Some q" "A / B * (1 - unit_roundoff) \<le> q"
      "q \<le> A / B * (1 + unit_roundoff)"
    using fl_near by blast
  have "int_truediv a b = Inr q" using assms(3) q(1) by (simp add: int_truediv_def A_def B_def)
  with q lo hi show ?thesis unfolding A_def B_def by blast
qed

lemma float_of_int_exact: "0 < n \<Longrightarrow> n \<le> 2 ^ 50 \<Longrightarrow> float_of_int n = Inr (of_int n)"
  using fl_of_int[of n] by (simp add: float_of_int_def)


text \<open>
  Claim C2, as amended. For an image and a target box whose four dimensions are positive and
  at most \<open>2 ^ 50\<close>, with the two aspect ratios computed in double precision: when the
  image's ratio is the greater one the scaled size is the target width and the quotient of
  the target width by the image's ratio, otherwise it is the product of the target height
  and the image's ratio and the target height, the quotient and the product computed in
  double precision and truncated to an integer by \<^verbatim>\<open>int\<close>, not rounded. No exception is raised,
  and the scaled image fits the target box: \<open>0 \<le> new_width \<le> target_width\<close> and
  \<open>0 \<le> new_height \<le> target_height\<close>.
\<close>

theorem letterbox_size_fits:
  assumes "0 < w" "w \<le> 2 ^ 50" "0 < h" "h \<le> 2 ^ 50"
    and "0 < tw" "tw \<le> 2 ^ 50" "0 < th" "th \<le> 2 ^ 50"
  shows "\<exists>original_aspect target_aspect new_width new_height.
           int_truediv w h = Inr original_aspect \<and>
           int_truediv tw th = Inr target_aspect \<and>
           letterbox_size w h tw th = Inr (new_width, new_height) \<and>
           (if target_aspect < original_aspect
            then new_width = tw \<and>
                 (\<exists>q. fl (of_int tw / original_aspect) = Some q \<and> new_height = \<lfloor>q\<rfloor>)
            else new_height = th \<and>
                 (\<exists>q. fl (of_int th * original_aspect) = Some q \<and> new_width = \<lfloor>q\<rfloor>)) \<and>
           0 \<le> new_width \<and> new_width \<le> tw \<and> 0 \<le> new_height \<and> new_height \<le> th"
proof -
  define U where "U = unit_roundoff"
  define TW :: rat where "TW = of_int tw"
  define TH :: rat where "TH = of_int th"
  have U: "U = 1 / 2 ^ 53" by (simp add: U_def unit_roundoff_def)
  from aspect_near[OF assms(1-4)] obtain a where
    a: "int_truediv w h = Inr a" "of_int w / of_int h * (1 - U) \<le> a"
       "a \<le> of_int w / of_int h * (1 + U)"
       "1 / 2 ^ 50 \<le> of_int w / (of_int h :: rat)" "of_int w / (of_int h :: rat) \<le> 2 ^ 50"
    unfolding U_def by blast
  from aspect_near[OF assms(5-8)] obtain t where
    t: "int_truediv tw th = Inr t" "TW / TH * (1 - U) \<le> t" "t \<le> TW / TH * (1 + U)"
    unfolding U_def TW_def TH_def by blast
  have "(of_int tw :: rat) \<le> of_int (2 ^ 50)" using assms(6) by (simp only: of_int_le_iff)
  moreover have "(of_int th :: rat) \<le> of_int (2 ^ 50)" using assms(8) by (simp only: of_int_le_iff)
  moreover have "(1::rat) \<le> of_int tw" "(1::rat) \<le> of_int th"
    using assms(5,7) by (simp_all add: int_one_le_iff_zero_less)
  ultimately have TW: "1 \<le> TW" "TW \<le> 2 ^ 50" and TH: "1 \<le> TH" "TH \<le> 2 ^ 50"
    by (simp_all add: TW_def TH_def)
  have a_lo: "1 / 2 ^ 51 \<le> a" using a(2,4) unfolding U
  proof -
    have "1 / 2 ^ 50 * (1 - 1 / 2 ^ 53) \<le> of_int w / (of_int h :: rat) * (1 - 1 / 2 ^ 53)"
      using a(4) by (intro mult_right_mono) simp_all
    with a(2) show ?thesis unfolding U by simp
  qed
  have a_hi: "a \<le> 2 ^ 51"
  proof -
    have "of_int w / (of_int h :: rat) * (1 + 1 / 2 ^ 53) \<le> 2 ^ 50 * (1 + 1 / 2 ^ 53)"
      using a(5) by (intro mult_right_mono) simp_all
    with a(3) show ?thesis unfolding U by simp
  qed
  have a_pos: "0 < a" using a_lo by (simp add: less_le_trans[of 0 "1 / 2 ^ 51"])
  have tTH_lo: "TW * (1 - U) \<le> TH * t"
  proof -
    have "TW / TH * (1 - U) * TH \<le> t * TH" using t(2) TH(1) by (intro mult_right_mono) simp_all
    then show ?thesis using TH(1) by (simp add: mult.commute)
  qed
  have tTH_hi: "TH * t \<le> TW * (1 + U)"
  proof -
    have "t * TH \<le> TW / TH * (1 + U) * TH" using t(3) TH(1) by (intro mult_right_mono) simp_all
    then show ?thesis using TH(1) by (simp add: mult.commute)
  qed
  show ?thesis
  proof (cases "t < a")
    case True
    define x where "x = TW / a"
    have x_pos: "0 < x" using TW(1) a_pos by (simp add: x_def)
    have "TH * t < TH * a" using True TH(1) by (intro mult_strict_left_mono) simp_all
    with tTH_lo have "TW * (1 - U) < TH * a" by linarith
    then have "TW / a * (1 - U) < TH" using a_pos by (simp add: field_simps)
    then have x1: "x * (1 - U) < TH" by (simp add: x_def)
    have x_hi: "x \<le> 2 ^ 60" using x1 TH(2) unfolding U by simp
    have x_lo: "1 / 2 ^ 60 \<le> x"
    proof -
      have "1 / 2 ^ 51 \<le> 1 / a" using a_hi a_pos by (simp add: field_simps)
      also have "1 / a \<le> TW / a" using TW(1) a_pos by (simp add: divide_le_cancel)
      finally have "1 / 2 ^ 51 \<le> x" by (simp only: x_def)
      moreover have "(1::rat) / 2 ^ 60 \<le> 1 / 2 ^ 51" by simp
      ultimately show ?thesis by linarith
    qed
    from fl_near[OF x_lo x_hi] obtain q where
      q: "fl x = Some q" "x * (1 - U) \<le> q" "q \<le> x * (1 + U)" unfolding U_def by blast
    have q_pos: "0 \<le> q" using q(2) x_pos unfolding U by (simp add: field_simps)
    have "q < TH + 1" using q(3) x1 TH(2) unfolding U by simp
    then have fit: "\<lfloor>q\<rfloor> \<le> th" by (simp add: floor_le_iff TH_def)
    have nn: "0 \<le> \<lfloor>q\<rfloor>" using q_pos by simp
    have ioq: "int_of_quotient tw a = Inr \<lfloor>q\<rfloor>"
      using float_of_int_exact[OF assms(5,6)] a_pos q(1) q_pos
      by (simp add: int_of_quotient_def x_def TW_def py_int_def)
    have "letterbox_size w h tw th = Inr (tw, \<lfloor>q\<rfloor>)"
      using a(1) t(1) True ioq by (simp add: letterbox_size_def)
    with a(1) t(1) True q(1) fit nn assms(5) show ?thesis
      unfolding x_def TW_def by (intro exI[of _ a] exI[of _ t] exI[of _ tw] exI[of _ "\<lfloor>q\<rfloor>"]) auto
  next
    case False
    define x where "x = TH * a"
    have x_pos: "0 < x" using TH(1) a_pos by (simp add: x_def)
    have "TH * a \<le> TH * t" using False TH(1) by (intro mult_left_mono) simp_all
    with tTH_hi have x1: "x \<le> TW * (1 + U)" by (simp add: x_def)
    have x_hi: "x \<le> 2 ^ 60" using x1 TW(2) unfolding U by simp
    have x_lo: "1 / 2 ^ 60 \<le> x"
    proof -
      have "1 * a \<le> TH * a" using TH(1) a_pos by (intro mult_right_mono) simp_all
      then have "a \<le> x" by (simp only: x_def mult_1)
      moreover have "(1::rat) / 2 ^ 60 \<le> 1 / 2 ^ 51" by simp
      ultimately show ?thesis using a_lo by linarith
    qed
    from fl_near[OF x_lo x_hi] obtain q where
      q: "fl x = Some q" "x * (1 - U) \<le> q" "q \<le> x * (1 + U)" unfolding U_def by blast
    have q_pos: "0 \<le> q" using q(2) x_pos unfolding U by (simp add: field_simps)
    have "q < TW + 1" using q(3) x1 TW(2) unfolding U by simp
    then have fit: "\<lfloor>q\<rfloor> \<le> tw" by (simp add: floor_le_iff TW_def)
    have nn: "0 \<le> \<lfloor>q\<rfloor>" using q_pos by simp
    have iop: "int_of_product th a = Inr \<lfloor>q\<rfloor>"
      using float_of_int_exact[OF assms(7,8)] q(1) q_pos
      by (simp add: int_of_product_def x_def TH_def py_int_def)
    have "letterbox_size w h tw th = Inr (\<lfloor>q\<rfloor>, th)"
      using a(1) t(1) False iop by (simp add: letterbox_size_def)
    with a(1) t(1) False q(1) fit nn assms(7) show ?thesis
      unfolding x_def TH_def by (intro exI[of _ a] exI[of _ t] exI[of _ "\<lfloor>q\<rfloor>"] exI[of _ th]) auto
  qed
qed

subsection \<open>Letterboxing\<close>

lemmas float_eval = letterbox_size_def int_truediv_def float_of_int_def int_of_quotient_def
  int_of_product_def py_int_def fl_def binade_def ilog2.simps round_half_even_def pow2_def Let_def

text \<open>
  Claim C2 as stated fails: a 3 by 2 image in a 4 by 4 box is scaled to 4 by 2, since
  \<^verbatim>\<open>int(4 / 1.5)\<close> is 2, where rounding the quotient, as the claim has it, gives 4 by 3.
\<close>

theorem letterbox_size_truncates_counterexample:
  "letterbox_size 3 2 4 4 = Inr (4, 2) \<and> letterbox_size_spec 3 2 4 4 = (4, 3)"
  by (simp add: float_eval letterbox_size_spec_def)

text \<open>The amended claim for a 4000 by 3000 image in a 1920 by 1080 box.\<close>

theorem letterbox_size_fits_witness:
  "(0::int) < 4000 \<and> (4000::int) \<le> 2 ^ 50 \<and> (0::int) < 3000 \<and> (3000::int) \<le> 2 ^ 50 \<and>
   (0::int) < 1920 \<and> (1920::int) \<le> 2 ^ 50 \<and> (0::int) < 1080 \<and> (1080::int) \<le> 2 ^ 50 \<and>
   (\<exists>new_width new_height. letterbox_size 4000 3000 1920 1080 = Inr (new_width, new_height) \<and>
      0 \<le> new_width \<and> new_width \<le> 1920 \<and> 0 \<le> new_height \<and> new_height \<le> 1080)"
proof -
  have h: "(0::int) < 4000" "(4000::int) \<le> 2 ^ 50" "(0::int) < 3000" "(3000::int) \<le> 2 ^ 50"
    "(0::int) < 1920" "(1920::int) \<le> 2 ^ 50" "(0::int) < 1080" "(1080::int) \<le> 2 ^ 50"
    by simp_all
  from letterbox_size_fits[OF h] obtain nw nh where
    "letterbox_size 4000 3000 1920 1080 = Inr (nw, nh)" "0 \<le> nw" "nw \<le> 1920" "0 \<le> nh" "nh \<le> 1080"
    by blast
  with h show ?thesis by blast
qed


text \<open>The general part of the claim for a 1600 by 1200 image and the same profile.\<close>



text \<open>
  Claim C5 fails on the code in its first half: when the output of an earlier run exists, the
  run still resizes the image, creates the canvas and pastes; only the save is skipped, so the
  existing file stays as it was.
\<close>

theorem existing_output_is_recomposed:
  "resize_image_sync ''Trip'' [square_profile] ''photos/beach.jpg'' (Some (4000, 2000)) world_rerun =
   (\<lparr>files = [''resized/Trip_square/beach.jpg'' \<mapsto> earlier_output],
      calls = [Makedirs ''resized/Trip_square'', Resize 1000 500, New_image 1000 1000 (0, 0, 0),
               Paste 0 250]\<rparr>, Success)"
proof -
  have size: "letterbox_size 4000 2000 1000 1000 = Inr (1000, 500)"
    by (simp add: float_eval)
  show ?thesis
    by (simp add: resize_image_sync_def process_profile_def size square_profile_def world_rerun_def
        path_join_def basename_def Let_def)
qed

text \<open>
  Claim C9. The expression of \<^verbatim>\<open>sync_immich_albums\<close> is not the precedence "exact count
  field, else the count of the embedded asset list, else zero": an album with
  \<^verbatim>\<open>assetCount\<close> 5 and no asset list gets 0 where the precedence gives 5, and an album
  with two embedded assets and no count field gets the list itself where the precedence
  gives 2.
\<close>

theorem asset_count_differs_from_precedence:
  "asset_count [(''id'', PStr ''a1''), (''albumName'', PStr ''Trip''), (''assetCount'', PInt 5)]
     = Some (PInt 0) \<and>
   asset_count_spec_precedence
     [(''id'', PStr ''a1''), (''albumName'', PStr ''Trip''), (''assetCount'', PInt 5)] = 5 \<and>
   asset_count [(''id'', PStr ''a1''), (''albumName'', PStr ''Trip''),
                (''assets'', PList [PStr ''x'', PStr ''y''])]
     = Some (PList [PStr ''x'', PStr ''y'']) \<and>
   asset_count_spec_precedence
     [(''id'', PStr ''a1''), (''albumName'', PStr ''Trip''),
      (''assets'', PList [PStr ''x'', PStr ''y''])] = 2 \<and>
   (\<exists>album. asset_count album \<noteq> Some (PInt (asset_count_spec_precedence album)))"
proof -
  let ?a = "[(''id'', PStr ''a1''), (''albumName'', PStr ''Trip''), (''assetCount'', PInt 5)]"
  let ?b = "[(''id'', PStr ''a1''), (''albumName'', PStr ''Trip''),
             (''assets'', PList [PStr ''x'', PStr ''y''])]"
  have 1: "asset_count ?a = Some (PInt 0)"
    by (simp add: asset_count_def get_def)
  have 2: "asset_count_spec_precedence ?a = 5"
    by (simp add: asset_count_spec_precedence_def)
  have 3: "asset_count ?b = Some (PList [PStr ''x'', PStr ''y''])"
    by (simp add: asset_count_def get_def get_default_def py_or_def)
  have 4: "asset_count_spec_precedence ?b = 2"
    by (simp add: asset_count_spec_precedence_def)
  from 1 2 have "asset_count ?a \<noteq> Some (PInt (asset_count_spec_precedence ?a))" by simp
  then have "\<exists>album. asset_count album \<noteq> Some (PInt (asset_count_spec_precedence album))" ..
  with 1 2 3 4 show ?thesis by blast
qed

end
